theory Spec2Isabelle
  imports Main "HOL-Library.Sublist"
begin

section \<open>CosmiFill: the sandbox and the secure tool handlers\<close>

text \<open>
  A shallow embedding of \<^verbatim>\<open>SecureSandbox\<close> (validatePath, readFile, writeFile,
  executeCommand, copyFiles) and of \<^verbatim>\<open>SecureToolHandler.handleEdit\<close>.
  JavaScript strings are modelled as \<^typ>\<open>string\<close>, thrown errors as the left summand of
  a sum type, and everything the methods touch outside their arguments (the filesystem,
  the process registry, the security log, the spawned and killed processes) as one record
  that every operation takes and returns.
\<close>

subsection \<open>Node's \<^verbatim>\<open>path\<close> module (POSIX flavour)\<close>

text \<open>
  The sandbox calls \<^verbatim>\<open>path.resolve\<close>, \<^verbatim>\<open>path.join\<close>, \<^verbatim>\<open>path.extname\<close> and
  \<^verbatim>\<open>path.dirname\<close>. They are library functions; the definitions below follow Node's
  \<^verbatim>\<open>lib/path.js\<close> (posix): a path is cut at every \<^verbatim>\<open>/\<close>, empty and \<^verbatim>\<open>.\<close> segments are
  dropped, and a \<^verbatim>\<open>..\<close> segment removes the segment before it.
\<close>

definition SEP :: char where
  "SEP = CHR ''/''"

definition DOT :: char where
  "DOT = CHR ''.''"

text \<open>The segments between separators: \<^verbatim>\<open>"a//b"\<close> gives \<^verbatim>\<open>["a", "", "b"]\<close>.\<close>

fun split_path :: "string \<Rightarrow> string list" where
  "split_path [] = [[]]"
| "split_path (c # cs) =
     (if c = SEP then [] # split_path cs
      else (case split_path cs of
              [] \<Rightarrow> [[c]]
            | s # ss \<Rightarrow> (c # s) # ss))"

fun join_segs :: "string list \<Rightarrow> string" where
  "join_segs [] = []"
| "join_segs [s] = s"
| "join_segs (s # t # ts) = s @ SEP # join_segs (t # ts)"

text \<open>
  One segment of \<^verbatim>\<open>normalizeString\<close>: \<open>res\<close> holds the segments kept so far. A \<^verbatim>\<open>..\<close>
  removes the last kept segment unless there is none or it is itself \<^verbatim>\<open>..\<close>; then it is
  kept only when \<^verbatim>\<open>allowAboveRoot\<close> holds.
\<close>

definition normalize_step :: "bool \<Rightarrow> string list \<Rightarrow> string \<Rightarrow> string list" where
  "normalize_step allowAboveRoot res s =
     (if s = [] \<or> s = [DOT] then res
      else if s = [DOT, DOT] then
        (if res \<noteq> [] \<and> last res \<noteq> [DOT, DOT] then butlast res
         else if allowAboveRoot then res @ [s] else res)
      else res @ [s])"

definition normalizeString :: "string \<Rightarrow> bool \<Rightarrow> string" where
  "normalizeString p allowAboveRoot =
     join_segs (foldl (normalize_step allowAboveRoot) [] (split_path p))"

definition isAbsolute :: "string \<Rightarrow> bool" where
  "isAbsolute p = (case p of [] \<Rightarrow> False | c # _ \<Rightarrow> c = SEP)"

text \<open>
  \<^verbatim>\<open>path.resolve\<close> walks its arguments from the right, then the current directory, and
  stops at the first absolute one; empty arguments are skipped.
\<close>

fun resolve_acc :: "string list \<Rightarrow> string \<Rightarrow> string \<times> bool" where
  "resolve_acc [] acc = (acc, False)"
| "resolve_acc (p # ps) acc =
     (if p = [] then resolve_acc ps acc
      else if isAbsolute p then (p @ SEP # acc, True)
      else resolve_acc ps (p @ SEP # acc))"

definition path_resolve :: "string \<Rightarrow> string list \<Rightarrow> string" where
  "path_resolve cwd args =
     (case resolve_acc (rev args @ [cwd]) [] of
        (resolvedPath, resolvedAbsolute) \<Rightarrow>
          (let n = normalizeString resolvedPath (\<not> resolvedAbsolute)
           in if resolvedAbsolute then SEP # n
              else if n \<noteq> [] then n else [DOT]))"

definition path_normalize :: "string \<Rightarrow> string" where
  "path_normalize p =
     (if p = [] then [DOT]
      else
        (let isAbs = isAbsolute p;
             trailingSeparator = (last p = SEP);
             n = normalizeString p (\<not> isAbs)
         in if n = [] then
              (if isAbs then [SEP] else if trailingSeparator then [DOT, SEP] else [DOT])
            else
              (let n' = (if trailingSeparator then n @ [SEP] else n)
               in if isAbs then SEP # n' else n')))"

definition path_join :: "string list \<Rightarrow> string" where
  "path_join args =
     (let parts = filter (\<lambda>a. a \<noteq> []) args
      in if parts = [] then [DOT] else path_normalize (join_segs parts))"

text \<open>
  \<^verbatim>\<open>path.extname\<close>: trailing separators are skipped, the last component is taken, and
  the extension runs from its last dot to its end. There is none when the component has
  no dot, when its only dot is its first character, or when the component is \<^verbatim>\<open>..\<close>.
\<close>

definition last_component :: "string \<Rightarrow> string" where
  "last_component p =
     rev (takeWhile (\<lambda>c. c \<noteq> SEP) (dropWhile (\<lambda>c. c = SEP) (rev p)))"

definition path_extname :: "string \<Rightarrow> string" where
  "path_extname p =
     (let comp = last_component p;
          ext = rev (takeWhile (\<lambda>c. c \<noteq> DOT) (rev comp))
      in if DOT \<notin> set comp then []
         else if length ext + 1 = length comp then []
         else if comp = [DOT, DOT] then []
         else DOT # ext)"

text \<open>
  \<^verbatim>\<open>path.dirname\<close>: the part before the separator that precedes the last component;
  index 0 is never examined by the loop.
\<close>

definition path_dirname :: "string \<Rightarrow> string" where
  "path_dirname p =
     (if p = [] then [DOT]
      else
        (let hasRoot = isAbsolute p;
             r = dropWhile (\<lambda>c. c \<noteq> SEP) (dropWhile (\<lambda>c. c = SEP) (rev (tl p)))
         in case r of
              [] \<Rightarrow> (if hasRoot then [SEP] else [DOT])
            | _ # pre \<Rightarrow>
                (if hasRoot \<and> pre = [] then [SEP, SEP]
                 else hd p # rev pre)))"

text \<open>\<^verbatim>\<open>String.prototype.toLowerCase\<close> on the ASCII letters; other characters are kept.\<close>

definition lower_char :: "char \<Rightarrow> char" where
  "lower_char c =
     (case map_of (zip ''ABCDEFGHIJKLMNOPQRSTUVWXYZ'' ''abcdefghijklmnopqrstuvwxyz'') c of
        Some l \<Rightarrow> l
      | None \<Rightarrow> c)"

definition toLowerCase :: "string \<Rightarrow> string" where
  "toLowerCase s = map lower_char s"

subsection \<open>The world around a sandbox\<close>

datatype errno = ENOENT | EISDIR | ENOTDIR | EEXIST

text \<open>
  One constructor per \<^verbatim>\<open>throw new Error(...)\<close> and per rejection of the sources, carrying
  what the message interpolates. \<open>FsError\<close> is an error of \<^verbatim>\<open>node:fs/promises\<close>, which
  the sandbox lets through; \<open>ToolFailed\<close> is the wrapper of the tool handlers
  (\<^verbatim>\<open>Failed to edit file: ...\<close>).
\<close>

datatype error =
    AccessDenied string
  | CopyDenied string
  | TypeNotAllowed string
  | CommandBlocked string
  | CommandFailed "int option" string
  | TimedOut
  | SpawnError string
  | FsError errno
  | ContentNotFound
  | ToolFailed string error

datatype detail = Str string | StrList "string list"

datatype security_event = SecurityEvent string "(string \<times> detail) list"

text \<open>
  The filesystem: the directories and the regular files with their content, each under its
  normalised absolute path.
\<close>

record fsys =
  fs_dirs :: "string set"
  fs_files :: "string \<rightharpoonup> string"

text \<open>The arguments of one \<^verbatim>\<open>spawn(command, args, { cwd, env, timeout })\<close>.\<close>

record spawn_call =
  sp_command :: string
  sp_args :: "string list"
  sp_cwd :: string
  sp_env :: "(string \<times> string) list"
  sp_timeout :: nat

text \<open>
  \<open>processes\<close> is the sandbox's \<^verbatim>\<open>Map<string, ChildProcess>\<close>; \<open>spawned\<close> and \<open>killed\<close>
  record the calls of \<^verbatim>\<open>spawn\<close> and of \<^verbatim>\<open>child.kill()\<close>, the latter by process id.
  \<open>now\<close> is what \<^verbatim>\<open>new Date().toISOString()\<close> returns.
\<close>

record world =
  cwd :: string
  now :: string
  fs :: fsys
  processes :: "string \<rightharpoonup> spawn_call"
  security_log :: "security_event list"
  spawned :: "spawn_call list"
  killed :: "string list"

record sandbox_config =
  sessionId :: string
  workDir :: string
  allowedPaths :: "string list"
  timeout :: nat

subsection \<open>The security logger\<close>

text \<open>
  An object literal is a list of keys with their values, in insertion order. Setting a key
  that is present replaces its value in place; a new key goes to the end.
\<close>

fun obj_set :: "(string \<times> detail) list \<Rightarrow> string \<Rightarrow> detail \<Rightarrow> (string \<times> detail) list" where
  "obj_set [] k v = [(k, v)]"
| "obj_set ((k', v') # rest) k v =
     (if k' = k then (k, v) # rest else (k', v') # obj_set rest k v)"

text \<open>What \<^verbatim>\<open>||\<close> takes for true: every value but the empty string.\<close>

fun truthy :: "detail \<Rightarrow> bool" where
  "truthy (Str s) = (s \<noteq> [])"
| "truthy (StrList l) = True"

text \<open>
  \<^verbatim>\<open>logSecurityEvent\<close> of \<^verbatim>\<open>utils/logger\<close>: the details are spread into a new object,
  then \<^verbatim>\<open>timestamp\<close> is set, then \<^verbatim>\<open>sessionId\<close> to \<^verbatim>\<open>details.sessionId || 'unknown'\<close>, and
  \<^verbatim>\<open>securityLogger.info\<close> receives the event and that object. The log is the list of what
  the logger has received.
\<close>

definition logSecurityEvent :: "string \<Rightarrow> (string \<times> detail) list \<Rightarrow> world \<Rightarrow> world" where
  "logSecurityEvent ev details w =
     (let sid = (case map_of details ''sessionId'' of
                   None \<Rightarrow> Str ''unknown''
                 | Some v \<Rightarrow> if truthy v then v else Str ''unknown'');
          meta = obj_set (obj_set details ''timestamp'' (Str (now w))) ''sessionId'' sid
      in w\<lparr>security_log := security_log w @ [SecurityEvent ev meta]\<rparr>)"

subsection \<open>\<^verbatim>\<open>node:fs/promises\<close>\<close>

text \<open>
  An operation resolves its path against the current directory first. \<open>ancestors\<close> are
  the path itself and every directory above it, outermost first; a path that passes
  through a regular file names nothing (\<^verbatim>\<open>ENOTDIR\<close>), and so does a regular file written
  with a trailing separator.
\<close>

definition fs_key :: "string \<Rightarrow> string \<Rightarrow> string" where
  "fs_key d p = path_resolve d [p]"

definition trailing_sep :: "string \<Rightarrow> bool" where
  "trailing_sep p = (p \<noteq> [] \<and> last p = SEP)"

definition ancestors :: "string \<Rightarrow> string list" where
  "ancestors p =
     (let segs = filter (\<lambda>s. s \<noteq> []) (split_path p)
      in map (\<lambda>k. SEP # join_segs (take k segs)) [0..<Suc (length segs)])"

definition through_file :: "fsys \<Rightarrow> string \<Rightarrow> bool" where
  "through_file f k = list_ex (\<lambda>a. fs_files f a \<noteq> None) (butlast (ancestors k))"

definition fs_readFile :: "string \<Rightarrow> fsys \<Rightarrow> string \<Rightarrow> errno + string" where
  "fs_readFile d f p =
     (let k = fs_key d p
      in if through_file f k then Inl ENOTDIR
         else if k \<in> fs_dirs f then Inl EISDIR
         else (case fs_files f k of
                 None \<Rightarrow> Inl ENOENT
               | Some content \<Rightarrow> if trailing_sep p then Inl ENOTDIR else Inr content))"

text \<open>
  \<^verbatim>\<open>fs.writeFile\<close> opens with flag \<^verbatim>\<open>w\<close>: the file is created or truncated, and the
  directory that holds it must exist.
\<close>

definition fs_writeFile :: "string \<Rightarrow> fsys \<Rightarrow> string \<Rightarrow> string \<Rightarrow> errno + fsys" where
  "fs_writeFile d f p content =
     (let k = fs_key d p
      in if through_file f k then Inl ENOTDIR
         else if k \<in> fs_dirs f then Inl EISDIR
         else if fs_files f k \<noteq> None then
           (if trailing_sep p then Inl ENOTDIR
            else Inr (f\<lparr>fs_files := (fs_files f)(k \<mapsto> content)\<rparr>))
         else if path_dirname k \<notin> fs_dirs f then Inl ENOENT
         else if trailing_sep p then Inl EISDIR
         else Inr (f\<lparr>fs_files := (fs_files f)(k \<mapsto> content)\<rparr>))"

text \<open>\<^verbatim>\<open>fs.mkdir(p, { recursive: true })\<close>.\<close>

definition fs_mkdir_recursive :: "string \<Rightarrow> fsys \<Rightarrow> string \<Rightarrow> errno + fsys" where
  "fs_mkdir_recursive d f p =
     (let k = fs_key d p
      in if fs_files f k \<noteq> None then Inl EEXIST
         else if through_file f k then Inl ENOTDIR
         else Inr (f\<lparr>fs_dirs := fs_dirs f \<union> set (ancestors k)\<rparr>))"

definition fs_copyFile :: "string \<Rightarrow> fsys \<Rightarrow> string \<Rightarrow> string \<Rightarrow> errno + fsys" where
  "fs_copyFile d f src dest =
     (let k = fs_key d src
      in if through_file f k then Inl ENOTDIR
         else if k \<in> fs_dirs f then Inl EISDIR
         else (case fs_files f k of
                 None \<Rightarrow> Inl ENOENT
               | Some content \<Rightarrow>
                   if trailing_sep src then Inl ENOTDIR else fs_writeFile d f dest content))"

subsection \<open>\<^verbatim>\<open>SecureSandbox\<close>\<close>

definition startsWith :: "string \<Rightarrow> string \<Rightarrow> bool" where
  "startsWith s t = prefix t s"

text \<open>The loop of \<^verbatim>\<open>validatePath\<close> over \<^verbatim>\<open>allowedPaths\<close>.\<close>

fun within_allowed :: "string \<Rightarrow> string list \<Rightarrow> bool" where
  "within_allowed resolved [] = False"
| "within_allowed resolved (allowedPath # rest) =
     (if startsWith resolved allowedPath then True else within_allowed resolved rest)"

definition validatePath :: "world \<Rightarrow> sandbox_config \<Rightarrow> string \<Rightarrow> bool" where
  "validatePath w cfg requestedPath =
     (let resolved = path_resolve (cwd w) [workDir cfg, requestedPath]
      in within_allowed resolved (allowedPaths cfg))"

definition readFile :: "world \<Rightarrow> sandbox_config \<Rightarrow> string \<Rightarrow> (error + string) \<times> world" where
  "readFile w cfg filePath =
     (let fullPath = path_join [workDir cfg, filePath]
      in if \<not> validatePath w cfg fullPath then
           (Inl (AccessDenied filePath),
            logSecurityEvent ''file_access_denied''
              [(''sessionId'', Str (sessionId cfg)), (''path'', Str filePath),
               (''operation'', Str ''read'')] w)
         else
           (case fs_readFile (cwd w) (fs w) fullPath of
              Inl e \<Rightarrow> (Inl (FsError e), w)
            | Inr content \<Rightarrow> (Inr content, w)))"

definition allowedExtensions :: "string list" where
  "allowedExtensions = [''.pdf'', ''.json'', ''.txt'', ''.py'', ''.log'']"

definition writeFile :: "world \<Rightarrow> sandbox_config \<Rightarrow> string \<Rightarrow> string \<Rightarrow> (error + unit) \<times> world" where
  "writeFile w cfg filePath content =
     (let fullPath = path_join [workDir cfg, filePath]
      in if \<not> validatePath w cfg fullPath then (Inl (AccessDenied filePath), w)
         else
           (let ext = toLowerCase (path_extname filePath)
            in if ext \<notin> set allowedExtensions then (Inl (TypeNotAllowed ext), w)
               else
                 (case fs_writeFile (cwd w) (fs w) fullPath content of
                    Inl e \<Rightarrow> (Inl (FsError e), w)
                  | Inr f \<Rightarrow> (Inr (), w\<lparr>fs := f\<rparr>))))"

text \<open>
  \<^verbatim>\<open>copyFiles\<close> stops at the first destination that is refused or that the filesystem
  rejects; the copies made before it stay.
\<close>

fun copyFiles :: "world \<Rightarrow> sandbox_config \<Rightarrow> (string \<times> string) list \<Rightarrow> (error + unit) \<times> world" where
  "copyFiles w cfg [] = (Inr (), w)"
| "copyFiles w cfg ((source, destination) # files) =
     (let destPath = path_join [workDir cfg, destination]
      in if \<not> validatePath w cfg destPath then (Inl (CopyDenied destination), w)
         else
           (case fs_mkdir_recursive (cwd w) (fs w) (path_dirname destPath) of
              Inl e \<Rightarrow> (Inl (FsError e), w)
            | Inr f1 \<Rightarrow>
                (case fs_copyFile (cwd w) f1 source destPath of
                   Inl e \<Rightarrow> (Inl (FsError e), w\<lparr>fs := f1\<rparr>)
                 | Inr f2 \<Rightarrow> copyFiles (w\<lparr>fs := f2\<rparr>) cfg files)))"

subsection \<open>\<^verbatim>\<open>executeCommand\<close>\<close>

definition allowedCommands :: "string list" where
  "allowedCommands = [''ls'', ''pwd'', ''echo'', ''python'', ''python3'']"

text \<open>
  What the child process emits: data on either stream, \<^verbatim>\<open>error\<close>, \<^verbatim>\<open>exit\<close> when the
  process has ended, and \<^verbatim>\<open>close\<close> when the process has ended and its streams are
  closed, both with the exit code (\<^verbatim>\<open>null\<close>, here \<open>None\<close>, when a signal ended the
  process). \<^verbatim>\<open>executeCommand\<close> registers handlers for the data, for \<^verbatim>\<open>error\<close> and for
  \<^verbatim>\<open>close\<close>, and none for \<^verbatim>\<open>exit\<close>.
\<close>

datatype child_event =
    StdoutData string
  | StderrData string
  | ErrorEvent string
  | ExitEvent "int option"
  | CloseEvent "int option"

text \<open>
  \<^verbatim>\<open>child.kill()\<close> sends \<^verbatim>\<open>SIGTERM\<close> and returns; \<open>killed\<close> records that it was called.
  The state of one invocation: the world, the two buffers, and the promise, \<open>None\<close>
  while it is pending. A promise settles once: later calls of \<^verbatim>\<open>resolve\<close> and \<^verbatim>\<open>reject\<close>
  have no effect.
\<close>

record invocation =
  inv_world :: world
  inv_stdout :: string
  inv_stderr :: string
  inv_promise :: "(error + string \<times> string) option"

definition settle :: "'a \<Rightarrow> 'a option \<Rightarrow> 'a option" where
  "settle v promise = (case promise of None \<Rightarrow> Some v | Some u \<Rightarrow> Some u)"

definition processes_delete :: "string \<Rightarrow> world \<Rightarrow> world" where
  "processes_delete processId w = w\<lparr>processes := (processes w)(processId := None)\<rparr>"

definition child_kill :: "string \<Rightarrow> world \<Rightarrow> world" where
  "child_kill processId w = w\<lparr>killed := killed w @ [processId]\<rparr>"

fun on_child_event :: "string \<Rightarrow> invocation \<Rightarrow> child_event \<Rightarrow> invocation" where
  "on_child_event processId st (StdoutData d) = st\<lparr>inv_stdout := inv_stdout st @ d\<rparr>"
| "on_child_event processId st (StderrData d) = st\<lparr>inv_stderr := inv_stderr st @ d\<rparr>"
| "on_child_event processId st (ErrorEvent e) =
     st\<lparr>inv_world := processes_delete processId (inv_world st),
        inv_promise := settle (Inl (SpawnError e)) (inv_promise st)\<rparr>"
| "on_child_event processId st (ExitEvent code) = st"
| "on_child_event processId st (CloseEvent code) =
     st\<lparr>inv_world := processes_delete processId (inv_world st),
        inv_promise :=
          (if code = Some 0 then settle (Inr (inv_stdout st, inv_stderr st)) (inv_promise st)
           else settle (Inl (CommandFailed code (inv_stderr st))) (inv_promise st))\<rparr>"

text \<open>The callback of \<^verbatim>\<open>setTimeout\<close>.\<close>

definition on_timeout :: "string \<Rightarrow> invocation \<Rightarrow> invocation" where
  "on_timeout processId st =
     (if processes (inv_world st) processId \<noteq> None then
        st\<lparr>inv_world := processes_delete processId (child_kill processId (inv_world st)),
           inv_promise := settle (Inl TimedOut) (inv_promise st)\<rparr>
      else st)"

text \<open>The synchronous part of the promise's executor: the environment, the spawn, the registry entry.\<close>

definition spawn_options :: "sandbox_config \<Rightarrow> string \<Rightarrow> string list \<Rightarrow> spawn_call" where
  "spawn_options cfg command args =
     (let env = [(''HOME'', workDir cfg), (''PATH'', ''/usr/bin:/bin''),
                 (''PYTHONPATH'', path_join [workDir cfg, ''modules''])]
      in \<lparr>sp_command = command, sp_args = args, sp_cwd = workDir cfg, sp_env = env,
          sp_timeout = timeout cfg\<rparr>)"

definition spawn_child :: "world \<Rightarrow> sandbox_config \<Rightarrow> string \<Rightarrow> string list \<Rightarrow> string \<Rightarrow> invocation" where
  "spawn_child w cfg command args processId =
     (let child = spawn_options cfg command args
      in \<lparr>inv_world = w\<lparr>spawned := spawned w @ [child],
                           processes := (processes w)(processId \<mapsto> child)\<rparr>,
          inv_stdout = [], inv_stderr = [], inv_promise = None\<rparr>)"

text \<open>
  \<^verbatim>\<open>executeCommand\<close>. \<open>processId\<close> is the value of \<^verbatim>\<open>`${Date.now()}-${Math.random()}`\<close>;
  \<open>evs_before\<close> are the events the child delivers before the timer fires and
  \<open>evs_after\<close> those it delivers afterwards. The result is the promise as the caller
  sees it, and the world.
\<close>

definition executeCommand ::
  "world \<Rightarrow> sandbox_config \<Rightarrow> string \<Rightarrow> string list \<Rightarrow> string \<Rightarrow> child_event list \<Rightarrow> child_event list
     \<Rightarrow> (error + string \<times> string) option \<times> world" where
  "executeCommand w cfg command args processId evs_before evs_after =
     (if command \<notin> set allowedCommands then
        (Some (Inl (CommandBlocked command)),
         logSecurityEvent ''command_blocked''
           [(''sessionId'', Str (sessionId cfg)), (''command'', Str command),
            (''args'', StrList args)] w)
      else
        (let st0 = spawn_child w cfg command args processId;
             st1 = foldl (on_child_event processId) st0 evs_before;
             st2 = on_timeout processId st1;
             st3 = foldl (on_child_event processId) st2 evs_after
         in (inv_promise st3, inv_world st3)))"

subsection \<open>\<^verbatim>\<open>SecureToolHandler.handleEdit\<close>\<close>

text \<open>
  The first occurrence of \<open>pat\<close> in \<open>s\<close>, as the text before it and the text after it;
  \<^verbatim>\<open>includes\<close> and \<^verbatim>\<open>replace\<close> both search from the left.
\<close>

fun find_first :: "string \<Rightarrow> string \<Rightarrow> (string \<times> string) option" where
  "find_first pat [] = (if pat = [] then Some ([], []) else None)"
| "find_first pat (c # cs) =
     (if prefix pat (c # cs) then Some ([], drop (length pat) (c # cs))
      else (case find_first pat cs of
              None \<Rightarrow> None
            | Some (pre, post) \<Rightarrow> Some (c # pre, post)))"

definition str_includes :: "string \<Rightarrow> string \<Rightarrow> bool" where
  "str_includes s pat = (find_first pat s \<noteq> None)"

text \<open>
  \<^verbatim>\<open>String.prototype.replace\<close> with a string pattern expands the replacement text
  (ECMAScript's GetSubstitution): \<^verbatim>\<open>$$\<close> is a dollar sign, \<^verbatim>\<open>$&\<close> the matched text,
  \<^verbatim>\<open>$`\<close> the text before the match and \<^verbatim>\<open>$'\<close> the text after it. A string pattern has no
  capture groups, so every other use of \<^verbatim>\<open>$\<close> stands for itself.
\<close>

fun getSubstitution :: "string \<Rightarrow> string \<Rightarrow> string \<Rightarrow> string \<Rightarrow> string" where
  "getSubstitution matched pre post [] = []"
| "getSubstitution matched pre post [c] = [c]"
| "getSubstitution matched pre post (c # d # r) =
     (if c = CHR ''$'' \<and> d = CHR ''$'' then CHR ''$'' # getSubstitution matched pre post r
      else if c = CHR ''$'' \<and> d = CHR ''&'' then matched @ getSubstitution matched pre post r
      else if c = CHR ''$'' \<and> d = CHR 0x60 then pre @ getSubstitution matched pre post r
      else if c = CHR ''$'' \<and> d = CHR 0x27 then post @ getSubstitution matched pre post r
      else c # getSubstitution matched pre post (d # r))"

definition js_replace :: "string \<Rightarrow> string \<Rightarrow> string \<Rightarrow> string" where
  "js_replace s pat replacement =
     (case find_first pat s of
        None \<Rightarrow> s
      | Some (pre, post) \<Rightarrow> pre @ getSubstitution pat pre post replacement @ post)"

definition handleEdit ::
  "world \<Rightarrow> sandbox_config \<Rightarrow> string \<Rightarrow> string \<Rightarrow> string \<Rightarrow> (error + unit) \<times> world" where
  "handleEdit w cfg filePath oldContent newContent =
     (case readFile w cfg filePath of
        (Inl e, w1) \<Rightarrow> (Inl (ToolFailed ''Failed to edit file'' e), w1)
      | (Inr currentContent, w1) \<Rightarrow>
          (if \<not> str_includes currentContent oldContent then
             (Inl (ToolFailed ''Failed to edit file'' ContentNotFound), w1)
           else
             (let updatedContent = js_replace currentContent oldContent newContent
              in case writeFile w1 cfg filePath updatedContent of
                   (Inl e, w2) \<Rightarrow> (Inl (ToolFailed ''Failed to edit file'' e), w2)
                 | (Inr u, w2) \<Rightarrow> (Inr (), w2))))"

definition handleRead :: "world \<Rightarrow> sandbox_config \<Rightarrow> string \<Rightarrow> (error + string) \<times> world" where
  "handleRead w cfg filePath =
     (case readFile w cfg filePath of
        (Inl e, w1) \<Rightarrow> (Inl (ToolFailed ''Failed to read file'' e), w1)
      | (Inr content, w1) \<Rightarrow> (Inr content, w1))"

subsection \<open>Notions the properties are stated with\<close>

text \<open>
  Containment by path components: \<open>p\<close> is \<open>dir\<close> itself or lies below it. This is the
  containment the specification asks of \<^verbatim>\<open>validatePath\<close>.
\<close>

definition path_segments :: "string \<Rightarrow> string list" where
  "path_segments p = filter (\<lambda>s. s \<noteq> []) (split_path p)"

definition is_at_or_below :: "string \<Rightarrow> string \<Rightarrow> bool" where
  "is_at_or_below p dir = prefix (path_segments dir) (path_segments p)"

text \<open>An absolute path with no empty segment and no trailing separator.\<close>

definition normal_root :: "string \<Rightarrow> bool" where
  "normal_root r = (r = SEP # join_segs (path_segments r))"

text \<open>
  A table of symbolic links, each with its target. The requested path passes through a
  link planted inside the session root whose target lies outside the root.
\<close>

definition through_outside_symlink ::
  "(string \<times> string) list \<Rightarrow> world \<Rightarrow> sandbox_config \<Rightarrow> string \<Rightarrow> bool" where
  "through_outside_symlink links w cfg requestedPath =
     (let resolved = path_resolve (cwd w) [workDir cfg, requestedPath]
      in list_ex (\<lambda>(link, target).
           is_at_or_below link (workDir cfg) \<and> is_at_or_below resolved link \<and>
           \<not> is_at_or_below target (workDir cfg)) links)"






text \<open>Replacing the first occurrence of \<open>pat\<close> by the text \<open>new\<close> as it stands.\<close>

definition replace_first :: "string \<Rightarrow> string \<Rightarrow> string \<Rightarrow> string" where
  "replace_first s pat new =
     (case find_first pat s of
        None \<Rightarrow> s
      | Some (pre, post) \<Rightarrow> pre @ new @ post)"

text \<open>
  The session of the specification's scenarios: root \<^verbatim>\<open>/tmp/s1\<close>, holding a text file
  and a data file.
\<close>

definition scenario_config :: sandbox_config where
  "scenario_config =
     \<lparr>sessionId = ''s1'', workDir = ''/tmp/s1'', allowedPaths = [''/tmp/s1''], timeout = 30000\<rparr>"

text \<open>The same session under an empty session id.\<close>

definition unnamed_config :: sandbox_config where
  "unnamed_config = scenario_config\<lparr>sessionId := []\<rparr>"

definition scenario_world :: world where
  "scenario_world =
     \<lparr>cwd = ''/home/app'', now = ''2025-01-01T00:00:00.000Z'',
      fs = \<lparr>fs_dirs = {''/'', ''/tmp'', ''/tmp/s1''},
            fs_files = [''/tmp/s1/hello.txt'' \<mapsto> ''Hello Hello'',
                        ''/tmp/s1/data.csv'' \<mapsto> ''a,b,c'']\<rparr>,
      processes = Map.empty, security_log = [], spawned = [], killed = []\<rparr>"

text \<open>A segment as \<^verbatim>\<open>normalizeString\<close> keeps it: not empty and without a separator.\<close>

definition good_seg :: "string \<Rightarrow> bool" where
  "good_seg s = (s \<noteq> [] \<and> SEP \<notin> set s)"

section \<open>Auxiliary lemmas\<close>

text \<open>The equations that evaluate paths and the scenario session.\<close>

lemmas path_eval = path_resolve_def path_join_def path_normalize_def normalizeString_def
  normalize_step_def isAbsolute_def SEP_def DOT_def path_extname_def last_component_def
  path_dirname_def toLowerCase_def lower_char_def startsWith_def validatePath_def Let_def

lemmas scenario_eval = scenario_world_def scenario_config_def

lemmas fs_eval = fs_readFile_def fs_writeFile_def fs_mkdir_recursive_def fs_copyFile_def
  fs_key_def trailing_sep_def through_file_def ancestors_def path_segments_def upt_rec

subsection \<open>One invocation of a command\<close>


lemma settle_Some [simp]: "settle v (Some u) = Some u"
  by (simp add: settle_def)

lemma settle_None [simp]: "settle v None = Some v"
  by (simp add: settle_def)























subsection \<open>Files\<close>

lemma readFile_fs: "fs (snd (readFile w cfg filePath)) = fs w"
  by (simp add: readFile_def logSecurityEvent_def Let_def split: sum.splits)

lemma readFile_ok_world: "readFile w cfg filePath = (Inr content, w1) \<Longrightarrow> w1 = w"
  by (simp add: readFile_def Let_def split: if_splits sum.splits)

lemma writeFile_bad_extension:
  assumes "toLowerCase (path_extname filePath) \<notin> set allowedExtensions"
  shows "writeFile w cfg filePath content =
           (if validatePath w cfg (path_join [workDir cfg, filePath])
            then (Inl (TypeNotAllowed (toLowerCase (path_extname filePath))), w)
            else (Inl (AccessDenied filePath), w))"
  using assms by (simp add: writeFile_def Let_def)

subsection \<open>Paths\<close>

lemma split_path_not_Nil: "split_path p \<noteq> []"
  by (induction p) (auto split: list.splits)

lemma split_path_no_sep: "s \<in> set (split_path p) \<Longrightarrow> SEP \<notin> set s"
proof (induction p arbitrary: s)
  case Nil
  then show ?case by simp
next
  case (Cons c cs)
  show ?case
  proof (cases "c = SEP")
    case True
    with Cons show ?thesis by auto
  next
    case False
    obtain t ts where ts: "split_path cs = t # ts"
      using split_path_not_Nil [of cs] by (cases "split_path cs") auto
    with Cons False show ?thesis by auto
  qed
qed

lemma split_path_plain: "SEP \<notin> set s \<Longrightarrow> split_path s = [s]"
  by (induction s) auto

lemma split_path_append: "SEP \<notin> set s \<Longrightarrow> split_path (s @ SEP # r) = s # split_path r"
  by (induction s) auto

lemma split_join:
  "segs \<noteq> [] \<Longrightarrow> \<forall>s \<in> set segs. SEP \<notin> set s \<Longrightarrow> split_path (join_segs segs) = segs"
  by (induction segs rule: join_segs.induct) (simp_all add: split_path_plain split_path_append)

lemma segments_of_joined:
  assumes "\<forall>s \<in> set segs. good_seg s"
  shows "path_segments (SEP # join_segs segs) = segs"
proof (cases "segs = []")
  case True
  then show ?thesis by (simp add: path_segments_def)
next
  case False
  have "split_path (join_segs segs) = segs"
    using False assms by (simp add: split_join good_seg_def)
  moreover have "filter (\<lambda>s. s \<noteq> []) segs = segs"
    using assms by (simp add: good_seg_def filter_id_conv)
  ultimately show ?thesis by (simp add: path_segments_def)
qed

lemma normalize_step_good:
  assumes "\<forall>t \<in> set res. good_seg t" "SEP \<notin> set s"
  shows "\<forall>t \<in> set (normalize_step allow res s). good_seg t"
  using assms by (auto simp add: normalize_step_def good_seg_def dest: in_set_butlastD)

lemma normalize_fold_good:
  "\<forall>t \<in> set res. good_seg t \<Longrightarrow> \<forall>s \<in> set xs. SEP \<notin> set s \<Longrightarrow>
   \<forall>t \<in> set (foldl (normalize_step allow) res xs). good_seg t"
proof (induction xs arbitrary: res)
  case Nil
  then show ?case by simp
next
  case (Cons x xs)
  have "\<forall>t \<in> set (normalize_step allow res x). good_seg t"
    using Cons.prems by (intro normalize_step_good) simp_all
  then show ?case using Cons by simp
qed

lemma join_segs_prefix: "prefix (join_segs xs) (join_segs (xs @ zs))"
proof (induction xs rule: join_segs.induct)
  case 1
  show ?case by simp
next
  case (2 s)
  show ?case by (cases zs) simp_all
next
  case (3 s t ts)
  then show ?case by simp
qed

lemma resolve_under_absolute_root:
  assumes "isAbsolute root"
  shows "\<exists>rp. resolve_acc (rev [root, p] @ [d]) [] = (rp, True)"
  using assms by (auto simp add: isAbsolute_def split: list.splits)

lemma resolved_form:
  assumes "isAbsolute root"
  shows "\<exists>segs. (\<forall>s \<in> set segs. good_seg s) \<and> path_resolve d [root, p] = SEP # join_segs segs"
proof -
  from resolve_under_absolute_root [OF assms] obtain rp
    where rp: "resolve_acc (rev [root, p] @ [d]) [] = (rp, True)" by blast
  let ?segs = "foldl (normalize_step False) [] (split_path rp)"
  have "\<forall>s \<in> set ?segs. good_seg s"
    by (rule normalize_fold_good) (simp_all add: split_path_no_sep)
  moreover have "path_resolve d [root, p] = SEP # join_segs ?segs"
    using rp by (simp add: path_resolve_def normalizeString_def)
  ultimately show ?thesis by blast
qed

lemma within_allowed_iff:
  "within_allowed resolved allowed = (\<exists>a \<in> set allowed. prefix a resolved)"
  by (induction allowed) (auto simp add: startsWith_def)

text \<open>A path that lies at or below a normal root, component by component, starts with it.\<close>

lemma contained_is_permitted:
  assumes root: "normal_root (workDir cfg)"
      and allowed: "workDir cfg \<in> set (allowedPaths cfg)"
      and below: "is_at_or_below (path_resolve (cwd w) [workDir cfg, p]) (workDir cfg)"
  shows "validatePath w cfg p"
proof -
  have abs: "isAbsolute (workDir cfg)"
    using root by (cases "workDir cfg") (auto simp add: normal_root_def isAbsolute_def)
  from resolved_form [OF abs] obtain segs
    where good: "\<forall>s \<in> set segs. good_seg s"
      and res: "path_resolve (cwd w) [workDir cfg, p] = SEP # join_segs segs"
    by blast
  have "prefix (path_segments (workDir cfg)) segs"
    using below res segments_of_joined [OF good] by (simp add: is_at_or_below_def)
  then obtain zs where "segs = path_segments (workDir cfg) @ zs"
    by (auto simp add: prefix_def)
  then have "prefix (join_segs (path_segments (workDir cfg))) (join_segs segs)"
    using join_segs_prefix by simp
  then have "prefix (SEP # join_segs (path_segments (workDir cfg))) (SEP # join_segs segs)"
    by simp
  then have "prefix (SEP # join_segs (path_segments (workDir cfg)))
      (path_resolve (cwd w) [workDir cfg, p])"
    by (simp add: res)
  moreover have "SEP # join_segs (path_segments (workDir cfg)) = workDir cfg"
    using root unfolding normal_root_def by (rule sym)
  ultimately have "prefix (workDir cfg) (path_resolve (cwd w) [workDir cfg, p])"
    by simp
  then show ?thesis
    using allowed by (auto simp add: validatePath_def within_allowed_iff Let_def)
qed

section \<open>Properties\<close>

subsection \<open>What \<^verbatim>\<open>validatePath\<close> permits\<close>

text \<open>
  C1. In the session with root \<^verbatim>\<open>/tmp/s1\<close>, \<^verbatim>\<open>/tmp/s1/test.txt\<close> is permitted and
  \<^verbatim>\<open>/etc/passwd\<close> is denied. The relative request \<^verbatim>\<open>../s1-other/secret.txt\<close> resolves to
  \<^verbatim>\<open>/tmp/s1-other/secret.txt\<close>, which is neither the root nor below it, and is permitted
  all the same, as is the absolute path itself: the test is \<^verbatim>\<open>startsWith\<close> on the text of
  the path, and the name of the sibling directory begins with the name of the root.
\<close>

theorem validatePath_sibling_prefix:
  "validatePath scenario_world scenario_config ''/tmp/s1/test.txt''
   \<and> \<not> validatePath scenario_world scenario_config ''/etc/passwd''
   \<and> path_resolve (cwd scenario_world) [workDir scenario_config, ''../s1-other/secret.txt'']
       = ''/tmp/s1-other/secret.txt''
   \<and> \<not> is_at_or_below ''/tmp/s1-other/secret.txt'' ''/tmp/s1''
   \<and> validatePath scenario_world scenario_config ''../s1-other/secret.txt''
   \<and> validatePath scenario_world scenario_config ''/tmp/s1-other/secret.txt''"
  by (simp add: path_eval scenario_eval is_at_or_below_def path_segments_def)

text \<open>
  C2, as the code has it. \<^verbatim>\<open>validatePath\<close> looks at the text of the path only and never
  at the filesystem. When the root is a normal absolute path that \<^verbatim>\<open>allowedPaths\<close> lists,
  a request that passes through a link planted inside the root, whose target lies outside
  the root, is permitted.
\<close>

theorem validatePath_follows_no_symlink:
  assumes "normal_root (workDir cfg)"
      and "workDir cfg \<in> set (allowedPaths cfg)"
      and "through_outside_symlink links w cfg requestedPath"
  shows "validatePath w cfg requestedPath"
proof -
  from assms(3) obtain link target
    where "is_at_or_below link (workDir cfg)"
      and "is_at_or_below (path_resolve (cwd w) [workDir cfg, requestedPath]) link"
    by (auto simp add: through_outside_symlink_def Let_def list_ex_iff)
  then have "is_at_or_below (path_resolve (cwd w) [workDir cfg, requestedPath]) (workDir cfg)"
    by (auto simp add: is_at_or_below_def)
  then show ?thesis using contained_is_permitted [OF assms(1) assms(2)] by simp
qed

theorem validatePath_follows_no_symlink_witness:
  "normal_root (workDir scenario_config)
   \<and> workDir scenario_config \<in> set (allowedPaths scenario_config)
   \<and> through_outside_symlink [(''/tmp/s1/docs'', ''/home/app/private'')] scenario_world
       scenario_config ''docs/../docs/keys.txt''
   \<and> validatePath scenario_world scenario_config ''docs/../docs/keys.txt''"
proof -
  have a: "normal_root (workDir scenario_config)"
    by (simp add: normal_root_def path_segments_def scenario_eval SEP_def)
  have b: "workDir scenario_config \<in> set (allowedPaths scenario_config)"
    by (simp add: scenario_eval)
  have c: "through_outside_symlink [(''/tmp/s1/docs'', ''/home/app/private'')] scenario_world
       scenario_config ''docs/../docs/keys.txt''"
    by (simp add: through_outside_symlink_def is_at_or_below_def path_segments_def path_eval
        scenario_eval)
  show ?thesis using validatePath_follows_no_symlink [OF a b c] a b c by simp
qed

text \<open>
  With \<^verbatim>\<open>/tmp/s1/link\<close> a link to \<^verbatim>\<open>/etc\<close>, the request \<^verbatim>\<open>link/passwd\<close> passes through
  the link and is permitted.
\<close>

theorem validatePath_symlink_counterexample:
  "through_outside_symlink [(''/tmp/s1/link'', ''/etc'')] scenario_world scenario_config
     ''link/passwd''
   \<and> validatePath scenario_world scenario_config ''link/passwd''"
  by (simp add: through_outside_symlink_def is_at_or_below_def path_segments_def path_eval
      scenario_eval)

subsection \<open>The outcomes of a whitelisted command\<close>




subsection \<open>The process registry\<close>




subsection \<open>Commands outside the whitelist\<close>

text \<open>
  C5, as the code has it. A command that is not one of \<^verbatim>\<open>ls\<close>, \<^verbatim>\<open>pwd\<close>, \<^verbatim>\<open>echo\<close>,
  \<^verbatim>\<open>python\<close>, \<^verbatim>\<open>python3\<close> is refused at once with \<open>CommandBlocked\<close>, whatever the child
  or the timer would have done: one \<^verbatim>\<open>command_blocked\<close> event is added to the security
  log, with the command, its arguments, the time, and the session id, or \<^verbatim>\<open>unknown\<close> in
  its place when the session id is empty; and no process is spawned, registered or
  killed. For \<^verbatim>\<open>rm -rf /\<close> the list of spawned processes stays empty.
\<close>

theorem executeCommand_blocked:
  assumes "command \<notin> {''ls'', ''pwd'', ''echo'', ''python'', ''python3''}"
  shows "fst (executeCommand w cfg command args processId evs_before evs_after)
           = Some (Inl (CommandBlocked command))
       \<and> security_log (snd (executeCommand w cfg command args processId evs_before evs_after))
           = security_log w @ [SecurityEvent ''command_blocked''
               [(''sessionId'', Str (if sessionId cfg = [] then ''unknown'' else sessionId cfg)),
                (''command'', Str command), (''args'', StrList args),
                (''timestamp'', Str (now w))]]
       \<and> spawned (snd (executeCommand w cfg command args processId evs_before evs_after))
           = spawned w
       \<and> processes (snd (executeCommand w cfg command args processId evs_before evs_after))
           = processes w
       \<and> killed (snd (executeCommand w cfg command args processId evs_before evs_after))
           = killed w"
  using assms by (simp add: executeCommand_def allowedCommands_def logSecurityEvent_def)

theorem executeCommand_blocked_witness:
  "fst (executeCommand scenario_world scenario_config ''rm'' [''-rf'', ''/''] ''1-0.5'' [] [])
     = Some (Inl (CommandBlocked ''rm''))
   \<and> security_log (snd (executeCommand scenario_world scenario_config ''rm'' [''-rf'', ''/'']
        ''1-0.5'' [] []))
     = [SecurityEvent ''command_blocked''
          [(''sessionId'', Str ''s1''), (''command'', Str ''rm''),
           (''args'', StrList [''-rf'', ''/'']),
           (''timestamp'', Str ''2025-01-01T00:00:00.000Z'')]]
   \<and> spawned (snd (executeCommand scenario_world scenario_config ''rm'' [''-rf'', ''/'']
        ''1-0.5'' [] [])) = []"
  using executeCommand_blocked [of "''rm''" scenario_world scenario_config "[''-rf'', ''/'']"
      "''1-0.5''" "[]" "[]"]
  by (simp add: scenario_world_def scenario_config_def)

text \<open>
  In a session whose id is the empty string, the event of a blocked \<^verbatim>\<open>rm\<close> names the
  session \<^verbatim>\<open>unknown\<close>.
\<close>

theorem executeCommand_blocked_counterexample:
  "sessionId unnamed_config = []
   \<and> security_log (snd (executeCommand scenario_world unnamed_config ''rm'' [''-rf'', ''/'']
        ''1-0.5'' [] []))
     = [SecurityEvent ''command_blocked''
          [(''sessionId'', Str ''unknown''), (''command'', Str ''rm''),
           (''args'', StrList [''-rf'', ''/'']),
           (''timestamp'', Str ''2025-01-01T00:00:00.000Z'')]]
   \<and> Str ''unknown'' \<noteq> Str (sessionId unnamed_config)"
  by (simp add: executeCommand_def allowedCommands_def logSecurityEvent_def unnamed_config_def
      scenario_eval)

subsection \<open>Writing files\<close>

text \<open>
  C6. For a path that \<^verbatim>\<open>validatePath\<close> permits, \<^verbatim>\<open>writeFile\<close> fails with \<open>TypeNotAllowed\<close>
  if and only if the extension of the path, in lower case, is not one of \<^verbatim>\<open>.pdf\<close>,
  \<^verbatim>\<open>.json\<close>, \<^verbatim>\<open>.txt\<close>, \<^verbatim>\<open>.py\<close>, \<^verbatim>\<open>.log\<close>. In the scenario session, writing
  \<^verbatim>\<open>test.exe\<close> fails with \<open>TypeNotAllowed\<close>, and writing \<^verbatim>\<open>test.pdf\<close> succeeds and stores
  the content.
\<close>

theorem writeFile_extension_check:
  assumes "validatePath w cfg (path_join [workDir cfg, filePath])"
  shows "((\<exists>ext. fst (writeFile w cfg filePath content) = Inl (TypeNotAllowed ext))
            = (toLowerCase (path_extname filePath)
                 \<notin> {''.pdf'', ''.json'', ''.txt'', ''.py'', ''.log''}))
       \<and> fst (writeFile scenario_world scenario_config ''test.exe'' ''x'')
           = Inl (TypeNotAllowed ''.exe'')
       \<and> fst (writeFile scenario_world scenario_config ''test.pdf'' ''x'') = Inr ()
       \<and> fs_files (fs (snd (writeFile scenario_world scenario_config ''test.pdf'' ''x'')))
            ''/tmp/s1/test.pdf'' = Some ''x''"
proof -
  have general: "(\<exists>ext. fst (writeFile w cfg filePath content) = Inl (TypeNotAllowed ext))
            = (toLowerCase (path_extname filePath)
                 \<notin> {''.pdf'', ''.json'', ''.txt'', ''.py'', ''.log''})"
    using assms by (auto simp add: writeFile_def allowedExtensions_def Let_def split: sum.splits)
  have exe: "fst (writeFile scenario_world scenario_config ''test.exe'' ''x'')
           = Inl (TypeNotAllowed ''.exe'')"
    by (simp add: writeFile_def allowedExtensions_def path_eval scenario_eval)
  have pdf: "writeFile scenario_world scenario_config ''test.pdf'' ''x'' =
      (Inr (), scenario_world\<lparr>fs := (fs scenario_world)\<lparr>fs_files :=
          (fs_files (fs scenario_world))(''/tmp/s1/test.pdf'' \<mapsto> ''x'')\<rparr>\<rparr>)"
    by (simp add: writeFile_def allowedExtensions_def fs_eval path_eval scenario_eval)
  show ?thesis using general exe by (simp add: pdf)
qed

theorem writeFile_extension_check_witness:
  "validatePath scenario_world scenario_config (path_join [workDir scenario_config, ''Report.PDF''])
   \<and> toLowerCase (path_extname ''Report.PDF'') = ''.pdf''
   \<and> (\<forall>ext. fst (writeFile scenario_world scenario_config ''Report.PDF'' ''x'')
          \<noteq> Inl (TypeNotAllowed ext))
   \<and> validatePath scenario_world scenario_config (path_join [workDir scenario_config, ''notes.md''])
   \<and> (\<exists>ext. fst (writeFile scenario_world scenario_config ''notes.md'' ''x'')
          = Inl (TypeNotAllowed ext))"
proof -
  have a: "validatePath scenario_world scenario_config (path_join [workDir scenario_config, ''Report.PDF''])"
    by (simp add: path_eval scenario_eval)
  have b: "validatePath scenario_world scenario_config (path_join [workDir scenario_config, ''notes.md''])"
    by (simp add: path_eval scenario_eval)
  have c: "toLowerCase (path_extname ''Report.PDF'') = ''.pdf''"
    by (simp add: path_eval)
  have d: "toLowerCase (path_extname ''notes.md'') = ''.md''"
    by (simp add: path_eval)
  show ?thesis
    using writeFile_extension_check [OF a, of "''x''"] writeFile_extension_check [OF b, of "''x''"]
      a b c d
    by simp
qed

text \<open>
  C7. In the scenario session the root has no directory \<^verbatim>\<open>reports\<close>. Writing
  \<^verbatim>\<open>reports/out.txt\<close> fails with \<^verbatim>\<open>ENOENT\<close> and leaves the world as it was: \<^verbatim>\<open>writeFile\<close>
  creates no directory. \<^verbatim>\<open>copyFiles\<close> to the same destination succeeds and creates the
  directory. Writing to the existing \<^verbatim>\<open>hello.txt\<close> replaces its content.
\<close>

theorem writeFile_missing_parent:
  "writeFile scenario_world scenario_config ''reports/out.txt'' ''x''
     = (Inl (FsError ENOENT), scenario_world)
   \<and> fst (copyFiles scenario_world scenario_config [(''/tmp/s1/hello.txt'', ''reports/out.txt'')])
       = Inr ()
   \<and> ''/tmp/s1/reports'' \<in> fs_dirs (fs (snd (copyFiles scenario_world scenario_config
         [(''/tmp/s1/hello.txt'', ''reports/out.txt'')])))
   \<and> fs_files (fs (snd (writeFile scenario_world scenario_config ''hello.txt'' ''new'')))
        ''/tmp/s1/hello.txt'' = Some ''new''"
  by (simp add: writeFile_def allowedExtensions_def fs_eval path_eval scenario_eval)

subsection \<open>Editing files\<close>

text \<open>
  C8. On the file holding \<^verbatim>\<open>Hello Hello\<close>, editing \<^verbatim>\<open>Hello\<close> to \<^verbatim>\<open>Hi\<close> gives
  \<^verbatim>\<open>Hi Hello\<close>, and editing the absent \<^verbatim>\<open>Nope\<close> fails with \<open>ContentNotFound\<close>. Editing
  \<^verbatim>\<open>Hello\<close> to the new content \<^verbatim>\<open>$&, $$5\<close> succeeds and gives \<^verbatim>\<open>Hello, $5 Hello\<close>, where
  replacing the first occurrence by the new content gives \<^verbatim>\<open>$&, $$5 Hello\<close>:
  \<^verbatim>\<open>String.prototype.replace\<close> expands \<^verbatim>\<open>$&\<close> and \<^verbatim>\<open>$$\<close> in the new content.
\<close>

theorem handleEdit_dollar_replacement:
  "fs_files (fs (snd (handleEdit scenario_world scenario_config ''hello.txt'' ''Hello'' ''Hi'')))
     ''/tmp/s1/hello.txt'' = Some ''Hi Hello''
   \<and> fst (handleEdit scenario_world scenario_config ''hello.txt'' ''Nope'' ''X'')
       = Inl (ToolFailed ''Failed to edit file'' ContentNotFound)
   \<and> fst (handleEdit scenario_world scenario_config ''hello.txt'' ''Hello'' ''$&, $$5'') = Inr ()
   \<and> fs_files (fs (snd (handleEdit scenario_world scenario_config ''hello.txt'' ''Hello''
        ''$&, $$5''))) ''/tmp/s1/hello.txt'' = Some ''Hello, $5 Hello''
   \<and> replace_first ''Hello Hello'' ''Hello'' ''$&, $$5'' = ''$&, $$5 Hello''"
  by (simp add: handleEdit_def readFile_def writeFile_def allowedExtensions_def str_includes_def
      js_replace_def replace_first_def fs_eval path_eval scenario_eval)

subsection \<open>Security events on refused paths\<close>

text \<open>
  C9. The path \<^verbatim>\<open>../../etc/cron.txt\<close> lies outside the root. \<^verbatim>\<open>writeFile\<close> and
  \<^verbatim>\<open>copyFiles\<close> refuse it and leave the world, and so the empty security log, as it was;
  \<^verbatim>\<open>readFile\<close> refuses it and logs \<^verbatim>\<open>file_access_denied\<close> with the session id, the
  path, the operation and the time.
\<close>

theorem denied_without_audit_event:
  "writeFile scenario_world scenario_config ''../../etc/cron.txt'' ''x''
     = (Inl (AccessDenied ''../../etc/cron.txt''), scenario_world)
   \<and> copyFiles scenario_world scenario_config [(''/tmp/s1/hello.txt'', ''../../etc/cron.txt'')]
       = (Inl (CopyDenied ''../../etc/cron.txt''), scenario_world)
   \<and> security_log scenario_world = []
   \<and> fst (readFile scenario_world scenario_config ''../../etc/cron.txt'')
       = Inl (AccessDenied ''../../etc/cron.txt'')
   \<and> security_log (snd (readFile scenario_world scenario_config ''../../etc/cron.txt''))
       = [SecurityEvent ''file_access_denied''
            [(''sessionId'', Str ''s1''), (''path'', Str ''../../etc/cron.txt''),
             (''operation'', Str ''read''), (''timestamp'', Str ''2025-01-01T00:00:00.000Z'')]]"
  by (simp add: readFile_def writeFile_def logSecurityEvent_def path_eval scenario_eval)

subsection \<open>Editing a file whose type may not be written\<close>

text \<open>
  C10. When the extension of the path, in lower case, is not one of \<^verbatim>\<open>.pdf\<close>, \<^verbatim>\<open>.json\<close>,
  \<^verbatim>\<open>.txt\<close>, \<^verbatim>\<open>.py\<close>, \<^verbatim>\<open>.log\<close>, \<^verbatim>\<open>handleEdit\<close> always fails and leaves the filesystem as
  it was. When the file can be read and holds the old content, the failure is the
  \<open>TypeNotAllowed\<close> of \<^verbatim>\<open>writeFile\<close>. Reading has no such check: \<^verbatim>\<open>handleRead\<close> returns
  the content of every permitted path that the filesystem can read.
\<close>

theorem handleEdit_disallowed_extension:
  assumes "toLowerCase (path_extname filePath) \<notin> {''.pdf'', ''.json'', ''.txt'', ''.py'', ''.log''}"
  shows "(\<exists>e. fst (handleEdit w cfg filePath oldContent newContent)
              = Inl (ToolFailed ''Failed to edit file'' e))
       \<and> fs (snd (handleEdit w cfg filePath oldContent newContent)) = fs w
       \<and> (fst (readFile w cfg filePath) = Inr content \<and> str_includes content oldContent \<longrightarrow>
            fst (handleEdit w cfg filePath oldContent newContent)
              = Inl (ToolFailed ''Failed to edit file''
                  (TypeNotAllowed (toLowerCase (path_extname filePath)))))
       \<and> (validatePath w cfg (path_join [workDir cfg, filePath])
            \<and> fs_readFile (cwd w) (fs w) (path_join [workDir cfg, filePath]) = Inr content
            \<longrightarrow>
            fst (handleRead w cfg filePath) = Inr content)"
proof -
  have bad: "toLowerCase (path_extname filePath) \<notin> set allowedExtensions"
    using assms by (simp add: allowedExtensions_def)
  obtain r w1 where rd: "readFile w cfg filePath = (r, w1)" by (cases "readFile w cfg filePath")
  have w1: "fs w1 = fs w" using readFile_fs [of w cfg filePath] rd by simp
  have rdable: "validatePath w cfg (path_join [workDir cfg, filePath])
            \<and> fs_readFile (cwd w) (fs w) (path_join [workDir cfg, filePath]) = Inr content
            \<longrightarrow>
            fst (handleRead w cfg filePath) = Inr content"
    by (simp add: handleRead_def readFile_def Let_def)
  show ?thesis
  proof (cases r)
    case (Inl e)
    then show ?thesis using rd w1 rdable by (simp add: handleEdit_def)
  next
    case (Inr c)
    then have same: "w1 = w" using rd readFile_ok_world by blast
    have valid: "validatePath w cfg (path_join [workDir cfg, filePath])"
      using rd Inr by (simp add: readFile_def Let_def split: if_splits)
    show ?thesis
      using rd Inr same valid rdable
      by (simp add: handleEdit_def writeFile_bad_extension [OF bad] Let_def)
  qed
qed

theorem handleEdit_disallowed_extension_witness:
  "toLowerCase (path_extname ''data.csv'') = ''.csv''
   \<and> fst (handleRead scenario_world scenario_config ''data.csv'') = Inr ''a,b,c''
   \<and> str_includes ''a,b,c'' ''b''
   \<and> fst (handleEdit scenario_world scenario_config ''data.csv'' ''b'' ''x'')
       = Inl (ToolFailed ''Failed to edit file'' (TypeNotAllowed ''.csv''))
   \<and> fs (snd (handleEdit scenario_world scenario_config ''data.csv'' ''b'' ''x''))
       = fs scenario_world"
proof -
  have a: "toLowerCase (path_extname ''data.csv'') = ''.csv''"
    by (simp add: path_eval)
  have b: "fst (readFile scenario_world scenario_config ''data.csv'') = Inr ''a,b,c''"
    by (simp add: readFile_def fs_eval path_eval scenario_eval)
  have c: "str_includes ''a,b,c'' ''b''"
    by (simp add: str_includes_def)
  have d: "validatePath scenario_world scenario_config (path_join [workDir scenario_config, ''data.csv''])
     \<and> fs_readFile (cwd scenario_world) (fs scenario_world)
           (path_join [workDir scenario_config, ''data.csv'']) = Inr ''a,b,c''"
    by (simp add: fs_eval path_eval scenario_eval)
  show ?thesis
    using handleEdit_disallowed_extension [of "''data.csv''" scenario_world scenario_config
        "''b''" "''x''" "''a,b,c''"] a b c d
    by simp
qed

end
